theory Spec2Isabelle
  imports Complex_Main
begin

section \<open>The SegmentDisplay widget (widgets/segmentdisplay/segmentdisplay.go)\<close>

text \<open>
  The widget keeps the text to display in a byte buffer, together with the write options of
  every chunk and a tracker that maps byte positions of the buffer to those options. Its
  methods run under the widget's mutex, so each of them is modelled as one sequential step
  on the widget's state.

  Go values are modelled as follows: \<open>int\<close> is \<open>int\<close> (no overflow is written out: the only
  arithmetic is on buffer lengths and cell coordinates), a \<open>string\<close> and the contents of a
  \<open>bytes.Buffer\<close> are byte lists (\<open>string\<close>), a \<open>rune\<close> is its code point, an \<open>error\<close>
  is a value of the datatype below and \<open>nil\<close> is \<open>None\<close>.
\<close>

type_synonym rune = int

datatype error =
    ErrorString string
      \<comment> \<open>\<open>errors.New(msg)\<close>\<close>
  | EmptyChunk nat
      \<comment> \<open>\<open>fmt.Errorf("text chunk[%d] is empty, all chunks must contains some text", i)\<close>\<close>
  | UnsupportedChars nat "rune list"
      \<comment> \<open>\<open>fmt.Errorf("text chunk[%d] contains unsupported characters %v, ...", i, badRunes)\<close>\<close>
  | Wrapped string error
      \<comment> \<open>\<open>fmt.Errorf("<callee> => %v", err)\<close>\<close>

text \<open>
  What a method call does: it returns (\<open>nil\<close> or an error), or it panics (a nil pointer is
  dereferenced, a slice is indexed out of range).
\<close>

datatype outcome = Returns "error option" | Panics

text \<open>\<open>image.Rectangle\<close> and \<open>image.Rect\<close> of Go's standard library.\<close>

record rectangle =
  minX :: int
  minY :: int
  maxX :: int
  maxY :: int

definition Rect :: "int \<Rightarrow> int \<Rightarrow> int \<Rightarrow> int \<Rightarrow> rectangle" where
  "Rect x0 y0 x1 y1 =
     \<lparr>minX = (if x0 > x1 then x1 else x0), minY = (if y0 > y1 then y1 else y0),
      maxX = (if x0 > x1 then x0 else x1), maxY = (if y0 > y1 then y0 else y1)\<rparr>"

definition Dx :: "rectangle \<Rightarrow> int" where
  "Dx r = maxX r - minX r"

definition Dy :: "rectangle \<Rightarrow> int" where
  "Dy r = maxY r - minY r"

text \<open>
  \<open>writeOptions\<close> and \<open>TextChunk\<close>. The source reads two fields of the write options:
  \<open>errOnUnsupported\<close> and \<open>cellOpts\<close>; the cell options are values of the \<open>cell\<close> package.
\<close>

record 'co writeOptions =
  errOnUnsupported :: bool
  cellOpts :: "'co list"

record 'co TextChunk =
  text_of :: string
  wOpts :: "'co writeOptions"

definition NewChunk :: "string \<Rightarrow> 'co writeOptions \<Rightarrow> 'co TextChunk" where
  "NewChunk t w = \<lparr>text_of = t, wOpts = w\<rparr>"

text \<open>
  The widget's state. \<open>'tr\<close> is \<open>attrrange.Tracker\<close>, \<open>'o\<close> is the widget's \<open>options\<close>.
\<close>

record ('tr, 'o, 'co) SegmentDisplay =
  buff :: string
  givenWOpts :: "'co writeOptions list"
  wOptsTracker :: 'tr
  opts :: 'o

text \<open>
  \<open>widgetapi.Options\<close>, with the scopes the source names. The widgetapi package declares
  further scopes; they stand behind the second constructor of each type.
\<close>

datatype KeyScope = KeyScopeNone | KeyScopeOther nat

datatype MouseScope = MouseScopeNone | MouseScopeOther nat

record widget_options =
  MinimumSize :: "int \<times> int"
  WantKeyboard :: KeyScope
  WantMouse :: MouseScope

text \<open>
  The collaborators of the widget that are declared in other packages or files:
  \<^item> of the widget's own \<open>options\<close>: \<open>newOptions\<close>, \<open>validate\<close> and the four fields that
    \<open>Draw\<close> reads; an \<open>Option\<close> is modelled by what its \<open>set\<close> does to the options;
  \<^item> of \<open>attrrange\<close>: \<open>NewTracker\<close>, \<open>Add\<close> (which updates the tracker in place and may fail)
    and \<open>ForPosition\<close>, which returns an \<open>AttrRange\<close>;
  \<^item> of \<open>sixteen\<close>: \<open>SupportsChars\<close>, \<open>Sanitize\<close>, the display (\<open>New\<close>, \<open>SetCharacter\<close>,
    \<open>Draw\<close> onto a canvas with cell options) and the constants \<open>MinCols\<close>, \<open>MinRows\<close>;
  \<^item> of the segment area (\<open>newSegArea\<close>, \<open>maximizeFit\<close>, \<open>needArea\<close>);
  \<^item> \<open>alignfor.Rectangle\<close>;
  \<^item> of \<open>canvas\<close>: \<open>New\<close>, \<open>Area\<close> and \<open>CopyTo\<close>, which writes into its argument;
  \<^item> the runes of a string with their byte offsets, as Go's \<open>range\<close> yields them.
\<close>

record AttrRange =
  Low :: int
  High :: int
  AttrIdx :: int

record segArea =
  segment :: rectangle
  canFit :: int
  gaps :: int
  gapPixels :: int

record ('tr, 'o, 'co, 'cv, 'ds, 'h, 'v) env =
  newOptions :: 'o
  validate :: "'o \<Rightarrow> error option"
  gapPercent :: "'o \<Rightarrow> int"
  maximizeSegSize :: "'o \<Rightarrow> bool"
  hAlign :: "'o \<Rightarrow> 'h"
  vAlign :: "'o \<Rightarrow> 'v"
  NewTracker :: 'tr
  Add :: "'tr \<Rightarrow> int \<Rightarrow> int \<Rightarrow> int \<Rightarrow> error option \<times> 'tr"
  ForPosition :: "'tr \<Rightarrow> int \<Rightarrow> error + AttrRange"
  SupportsChars :: "string \<Rightarrow> bool \<times> rune list"
  Sanitize :: "string \<Rightarrow> string"
  MinCols :: int
  MinRows :: int
  sixteenNew :: 'ds
  SetCharacter :: "'ds \<Rightarrow> rune \<Rightarrow> error option \<times> 'ds"
  dispDraw :: "'ds \<Rightarrow> 'cv \<Rightarrow> 'co list \<Rightarrow> error option \<times> 'cv"
  newSegArea :: "rectangle \<Rightarrow> int \<Rightarrow> int \<Rightarrow> error + segArea"
  maximizeFit :: "rectangle \<Rightarrow> int \<Rightarrow> int \<Rightarrow> error + segArea"
  needArea :: "segArea \<Rightarrow> rectangle"
  alignforRectangle :: "rectangle \<Rightarrow> rectangle \<Rightarrow> 'h \<Rightarrow> 'v \<Rightarrow> error + rectangle"
  canvasNew :: "rectangle \<Rightarrow> error + 'cv"
  Area :: "'cv \<Rightarrow> rectangle"
  CopyTo :: "'cv \<Rightarrow> 'cv \<Rightarrow> error option \<times> 'cv"
  range_string :: "string \<Rightarrow> (int \<times> rune) list"

subsection \<open>New, Reset and Write\<close>

definition apply_options :: "('o \<Rightarrow> 'o) list \<Rightarrow> 'o \<Rightarrow> 'o" where
  "apply_options os o0 = fold (\<lambda>set_o acc. set_o acc) os o0"

definition New ::
  "('tr, 'o, 'co, 'cv, 'ds, 'h, 'v) env \<Rightarrow> ('o \<Rightarrow> 'o) list \<Rightarrow> error + ('tr, 'o, 'co) SegmentDisplay" where
  "New E os =
     (let opt = apply_options os (newOptions E) in
      case validate E opt of
        Some err \<Rightarrow> Inl err
      | None \<Rightarrow> Inr \<lparr>buff = [], givenWOpts = [], wOptsTracker = NewTracker E, opts = opt\<rparr>)"

definition reset ::
  "('tr, 'o, 'co, 'cv, 'ds, 'h, 'v) env \<Rightarrow> ('tr, 'o, 'co) SegmentDisplay \<Rightarrow> ('tr, 'o, 'co) SegmentDisplay" where
  "reset E sd = sd\<lparr>buff := [], givenWOpts := [], wOptsTracker := NewTracker E\<rparr>"

definition Reset ::
  "('tr, 'o, 'co, 'cv, 'ds, 'h, 'v) env \<Rightarrow> ('tr, 'o, 'co) SegmentDisplay \<Rightarrow> ('tr, 'o, 'co) SegmentDisplay" where
  "Reset E sd = reset E sd"

text \<open>
  The loop of \<open>Write\<close> over the chunks, from index \<open>i\<close> on. A chunk is a pointer: \<open>None\<close> is
  the nil pointer, whose field \<open>text\<close> cannot be read. The write options of a chunk are
  those that \<open>NewChunk\<close> stored; the loop reads them only after it has found the text
  non-empty, which no chunk without write options has (the fields are not exported).
\<close>

fun write_chunks ::
  "('tr, 'o, 'co, 'cv, 'ds, 'h, 'v) env \<Rightarrow> nat \<Rightarrow> 'co TextChunk option list \<Rightarrow>
   ('tr, 'o, 'co) SegmentDisplay \<Rightarrow> outcome \<times> ('tr, 'o, 'co) SegmentDisplay" where
  "write_chunks E i [] sd = (Returns None, sd)"
| "write_chunks E i (None # rest) sd = (Panics, sd)"
| "write_chunks E i (Some tc # rest) sd =
     (if text_of tc = [] then (Returns (Some (EmptyChunk i)), sd)
      else if \<not> fst (SupportsChars E (text_of tc)) \<and> errOnUnsupported (wOpts tc)
        then (Returns (Some (UnsupportedChars i (snd (SupportsChars E (text_of tc))))), sd)
      else
        let txt = Sanitize E (text_of tc);
            pos = int (length (buff sd));
            sd1 = sd\<lparr>givenWOpts := givenWOpts sd @ [wOpts tc]\<rparr>;
            wOptsIdx = int (length (givenWOpts sd1)) - 1;
            (err, tr) = Add E (wOptsTracker sd1) pos (pos + int (length txt)) wOptsIdx;
            sd2 = sd1\<lparr>wOptsTracker := tr\<rparr>
        in case err of
             Some e \<Rightarrow> (Returns (Some e), sd2)
           | None \<Rightarrow> write_chunks E (Suc i) rest (sd2\<lparr>buff := buff sd2 @ txt\<rparr>))"

definition Write ::
  "('tr, 'o, 'co, 'cv, 'ds, 'h, 'v) env \<Rightarrow> 'co TextChunk option list \<Rightarrow> ('o \<Rightarrow> 'o) list \<Rightarrow>
   ('tr, 'o, 'co) SegmentDisplay \<Rightarrow> outcome \<times> ('tr, 'o, 'co) SegmentDisplay" where
  "Write E chunks os sd =
     (let sd1 = sd\<lparr>opts := apply_options os (opts sd)\<rparr> in
      case validate E (opts sd1) of
        Some err \<Rightarrow> (Returns (Some err), sd1)
      | None \<Rightarrow>
          if length chunks = 0
          then (Returns (Some (ErrorString ''at least one text chunk must be specified'')), sd1)
          else write_chunks E 0 chunks (reset E sd1))"

subsection \<open>Draw\<close>

definition preprocess ::
  "('tr, 'o, 'co, 'cv, 'ds, 'h, 'v) env \<Rightarrow> ('tr, 'o, 'co) SegmentDisplay \<Rightarrow> rectangle \<Rightarrow>
   error + segArea" where
  "preprocess E sd cvsAr =
     (let textLen = int (length (buff sd)) in
      case newSegArea E cvsAr textLen (gapPercent E (opts sd)) of
        Inl err \<Rightarrow> Inl err
      | Inr segAr \<Rightarrow>
          let need = int (length (buff sd)) in
          if need \<le> canFit segAr \<or> maximizeSegSize E (opts sd) then Inr segAr
          else (case maximizeFit E cvsAr textLen (gapPercent E (opts sd)) of
                  Inl err \<Rightarrow> Inl err
                | Inr bestAr \<Rightarrow> Inr bestAr))"

text \<open>
  The loop of \<open>Draw\<close> over the runes of the text. The loop's variables are \<open>startX\<close>,
  \<open>gaps\<close>, \<open>optRange\<close> and the canvas, which \<open>CopyTo\<close> writes into.
\<close>

fun draw_segments ::
  "('tr, 'o, 'co, 'cv, 'ds, 'h, 'v) env \<Rightarrow> ('tr, 'o, 'co) SegmentDisplay \<Rightarrow> segArea \<Rightarrow>
   rectangle \<Rightarrow> (int \<times> rune) list \<Rightarrow> int \<Rightarrow> int \<Rightarrow> AttrRange \<Rightarrow> 'cv \<Rightarrow> outcome \<times> 'cv" where
  "draw_segments E sd segAr aligned [] startX gps optRange cvs = (Returns None, cvs)"
| "draw_segments E sd segAr aligned ((i, c) # rest) startX gps optRange cvs =
     (if i \<ge> canFit segAr then (Returns None, cvs)
      else
        case SetCharacter E (sixteenNew E) c of
          (Some err, disp) \<Rightarrow> (Returns (Some (Wrapped ''disp.SetCharacter'' err)), cvs)
        | (None, disp) \<Rightarrow>
            let endX = startX + Dx (segment segAr);
                ar = Rect startX (minY aligned) endX (maxY aligned);
                startX' = (if gps > 0 then endX + gapPixels segAr else endX);
                gps' = (if gps > 0 then gps - 1 else gps)
            in case canvasNew E ar of
                 Inl err \<Rightarrow> (Returns (Some (Wrapped ''canvas.New'' err)), cvs)
               | Inr dCvs \<Rightarrow>
                   (case (if i \<ge> High optRange then ForPosition E (wOptsTracker sd) i
                          else Inr optRange) of
                      Inl err \<Rightarrow> (Returns (Some err), cvs)
                    | Inr optRange' \<Rightarrow>
                        if AttrIdx optRange' < 0 \<or> AttrIdx optRange' \<ge> int (length (givenWOpts sd))
                        then (Panics, cvs)
                        else
                          let wOps = givenWOpts sd ! nat (AttrIdx optRange') in
                          case dispDraw E disp dCvs (cellOpts wOps) of
                            (Some err, dCvs') \<Rightarrow> (Returns (Some (Wrapped ''disp.Draw'' err)), cvs)
                          | (None, dCvs') \<Rightarrow>
                              (case CopyTo E dCvs' cvs of
                                 (Some err, cvs') \<Rightarrow>
                                   (Returns (Some (Wrapped ''dCvs.CopyTo'' err)), cvs')
                               | (None, cvs') \<Rightarrow>
                                   draw_segments E sd segAr aligned rest startX' gps' optRange' cvs')))"

definition Draw ::
  "('tr, 'o, 'co, 'cv, 'ds, 'h, 'v) env \<Rightarrow> ('tr, 'o, 'co) SegmentDisplay \<Rightarrow> 'cv \<Rightarrow> outcome \<times> 'cv" where
  "Draw E sd cvs =
     (if length (buff sd) = 0 then (Returns None, cvs)
      else
        case preprocess E sd (Area E cvs) of
          Inl err \<Rightarrow> (Returns (Some err), cvs)
        | Inr segAr \<Rightarrow>
            let txt = buff sd in
            case alignforRectangle E (Area E cvs) (needArea E segAr)
                   (hAlign E (opts sd)) (vAlign E (opts sd)) of
              Inl err \<Rightarrow> (Returns (Some (Wrapped ''alignfor.Rectangle'' err)), cvs)
            | Inr aligned \<Rightarrow>
                (case ForPosition E (wOptsTracker sd) 0 of
                   Inl err \<Rightarrow> (Returns (Some err), cvs)
                 | Inr optRange \<Rightarrow>
                     draw_segments E sd segAr aligned (range_string E txt)
                       (minX aligned) (gaps segAr) optRange cvs))"

subsection \<open>Keyboard, Mouse and Options\<close>

definition Keyboard :: "'k \<Rightarrow> error option" where
  "Keyboard k =
     Some (ErrorString (''the SegmentDisplay widget doesn'' @ [CHR 0x27] @ ''t support keyboard events''))"

definition Mouse :: "'m \<Rightarrow> error option" where
  "Mouse m =
     Some (ErrorString (''the SegmentDisplay widget doesn'' @ [CHR 0x27] @ ''t support mouse events''))"

definition Options ::
  "('tr, 'o, 'co, 'cv, 'ds, 'h, 'v) env \<Rightarrow> ('tr, 'o, 'co) SegmentDisplay \<Rightarrow> widget_options" where
  "Options E sd =
     \<lparr>MinimumSize = (MinCols E, MinRows E),
      WantKeyboard = KeyScopeNone,
      WantMouse = MouseScopeNone\<rparr>"

section \<open>The container layout engine\<close>

text \<open>
  The repository's sources at hand hold the tests of the container package
  (container/container_test.go) and not the package itself: \<open>Container\<close>, its options and
  \<open>Draw\<close>, and the packages \<open>canvas\<close> and \<open>draw\<close> it uses. This section models them from
  the specification (sections 3, 4.1, 4.2 and 4.3), and states the trees and the expected
  terminals of \<open>TestDraw\<close> as the test file writes them.
\<close>

subsection \<open>Rectangles and the split policy\<close>

text \<open>
  Modelled from the spec: a rectangle is the half-open region \<open>[minX,maxX) \<times> [minY,maxY)\<close>;
  one with no positive width or height is degenerate.
\<close>

definition degenerate :: "rectangle \<Rightarrow> bool" where
  "degenerate r \<longleftrightarrow> Dx r \<le> 0 \<or> Dy r \<le> 0"

definition cells_of :: "rectangle \<Rightarrow> (int \<times> int) set" where
  "cells_of r = {(x, y). minX r \<le> x \<and> x < maxX r \<and> minY r \<le> y \<and> y < maxY r}"

definition inside :: "rectangle \<Rightarrow> rectangle \<Rightarrow> bool" where
  "inside r outer \<longleftrightarrow>
     minX outer \<le> minX r \<and> maxX r \<le> maxX outer \<and> minY outer \<le> minY r \<and> maxY r \<le> maxY outer"

datatype axis = Horizontal | Vertical

text \<open>
  Modelled from the spec: the Split Policy (section 4.2), which is not in the sources. For a
  horizontal split of height \<open>h\<close> the first child's height is \<open>floor (h \<times> p)\<close> and the second
  child receives the remainder; a vertical split does the same on the width. The ratio
  defaults to 0.5.
\<close>

definition split_rect :: "rectangle \<Rightarrow> axis \<Rightarrow> real \<Rightarrow> rectangle \<times> rectangle" where
  "split_rect r ax p =
     (case ax of
        Horizontal \<Rightarrow>
          (let a = \<lfloor>real_of_int (Dy r) * p\<rfloor> in
           (r\<lparr>maxY := minY r + a\<rparr>, r\<lparr>minY := minY r + a\<rparr>))
      | Vertical \<Rightarrow>
          (let a = \<lfloor>real_of_int (Dx r) * p\<rfloor> in
           (r\<lparr>maxX := minX r + a\<rparr>, r\<lparr>minX := minX r + a\<rparr>)))"

definition default_ratio :: real where
  "default_ratio = 1 / 2"

subsection \<open>Canvas and border renderer\<close>

datatype 'e layout_error =
    InvalidArea
  | OutOfBounds
  | InvalidTerminalSize
  | ConflictingOptions
  | UnsupportedInput
  | WidgetError 'e

text \<open>
  Modelled from the spec: the Canvas (section 4.1), which is not in the sources: a buffer of
  cells bound to a rectangle of absolute coordinates, zero-initialised by \<open>New\<close>, which fails
  on a rectangle of non-positive width or height; \<open>CopyTo\<close> writes the cells of a canvas into
  a parent canvas that contains its rectangle.
\<close>

record 'c canvas =
  area :: rectangle
  cell_at :: "int \<times> int \<Rightarrow> 'c"

definition canvas_New :: "rectangle \<Rightarrow> 'e layout_error + ('c::zero) canvas" where
  "canvas_New r =
     (if Dx r \<le> 0 \<or> Dy r \<le> 0 then Inl InvalidArea
      else Inr \<lparr>area = r, cell_at = (\<lambda>_. 0)\<rparr>)"

definition canvas_CopyTo :: "'c canvas \<Rightarrow> 'c canvas \<Rightarrow> 'e layout_error + 'c canvas" where
  "canvas_CopyTo c parent =
     (if inside (area c) (area parent)
      then Inr (parent\<lparr>cell_at := (\<lambda>pt. if pt \<in> cells_of (area c) then cell_at c pt
                                       else cell_at parent pt)\<rparr>)
      else Inl OutOfBounds)"

text \<open>
  Modelled from the spec: the Border Renderer, which is not in the sources: it draws the
  outline of a rectangle in a line style. A line style gives the cell of each part of the
  outline.
\<close>

datatype line_part = HLine | VLine | TopLeft | TopRight | BottomLeft | BottomRight

type_synonym 'c line_style = "line_part \<Rightarrow> 'c"

definition outline_part :: "rectangle \<Rightarrow> int \<times> int \<Rightarrow> line_part option" where
  "outline_part r pt =
     (let x = fst pt; y = snd pt;
          onLeft = (x = minX r); onRight = (x = maxX r - 1);
          onTop = (y = minY r); onBottom = (y = maxY r - 1)
      in if pt \<notin> cells_of r then None
         else if onTop \<and> onLeft then Some TopLeft
         else if onTop \<and> onRight then Some TopRight
         else if onBottom \<and> onLeft then Some BottomLeft
         else if onBottom \<and> onRight then Some BottomRight
         else if onTop \<or> onBottom then Some HLine
         else if onLeft \<or> onRight then Some VLine
         else None)"

definition box_cells :: "'c line_style \<Rightarrow> rectangle \<Rightarrow> (int \<times> int \<Rightarrow> 'c) \<Rightarrow> int \<times> int \<Rightarrow> 'c" where
  "box_cells ls r cs = (\<lambda>pt. case outline_part r pt of Some part \<Rightarrow> ls part | None \<Rightarrow> cs pt)"

definition draw_Box :: "'c canvas \<Rightarrow> rectangle \<Rightarrow> 'c line_style \<Rightarrow> 'e layout_error + 'c canvas" where
  "draw_Box cvs r ls =
     (if inside r (area cvs) then Inr (cvs\<lparr>cell_at := box_cells ls r (cell_at cvs)\<rparr>)
      else Inl OutOfBounds)"

subsection \<open>Containers and Draw\<close>

text \<open>
  Modelled from the spec: the widget contract (section 4.4), of which the engine uses the
  declared minimum size and \<open>Draw\<close>, which writes into the canvas it is given or fails with
  an error of the widget's own.
\<close>

record ('c, 'e) widget =
  minimum_size :: "int \<times> int"
  widget_Draw :: "'c canvas \<Rightarrow> 'e + 'c canvas"

text \<open>
  Modelled from the spec: the Container (section 3), which is not in the sources: a tree node
  with an optional border and exactly one payload: nothing, a bound widget, or a split into
  two children along an axis at a ratio. The node's area is recomputed by every draw, so it
  is an argument of the drawing function and not a field; the parent reference is used for
  event routing only.
\<close>

datatype ('c, 'e) container =
    Empty "'c line_style option"
  | Bound "'c line_style option" "('c, 'e) widget"
  | Split "'c line_style option" axis real "('c, 'e) container" "('c, 'e) container"

fun border :: "('c, 'e) container \<Rightarrow> 'c line_style option" where
  "border (Empty b) = b"
| "border (Bound b w) = b"
| "border (Split b ax p c1 c2) = b"

definition inset :: "rectangle \<Rightarrow> rectangle" where
  "inset r = \<lparr>minX = minX r + 1, minY = minY r + 1, maxX = maxX r - 1, maxY = maxY r - 1\<rparr>"

text \<open>
  Modelled from the spec: step 2 of the algorithm of section 4.3. A border is drawn into the
  full area when both dimensions are at least 2, and the content is the area inset by one
  cell; a smaller area gets no border and is all content.
\<close>

definition draw_border ::
  "'c line_style option \<Rightarrow> rectangle \<Rightarrow> 'c canvas \<Rightarrow> 'e layout_error + ('c canvas \<times> rectangle)" where
  "draw_border b ar buf =
     (case b of
        None \<Rightarrow> Inr (buf, ar)
      | Some ls \<Rightarrow>
          if Dx ar \<ge> 2 \<and> Dy ar \<ge> 2
          then (case draw_Box buf ar ls of
                  Inl err \<Rightarrow> Inl err
                | Inr buf' \<Rightarrow> Inr (buf', inset ar))
          else Inr (buf, ar))"

text \<open>
  Modelled from the spec: step 3. A widget whose minimum size the content meets draws on a
  canvas allocated over the content, which is then copied into the buffer; otherwise the
  widget is skipped. The error of a collaborator is returned as it is.
\<close>

definition draw_widget ::
  "('c::zero, 'e) widget \<Rightarrow> rectangle \<Rightarrow> 'c canvas \<Rightarrow> 'e layout_error + 'c canvas" where
  "draw_widget w content buf =
     (if Dx content \<ge> fst (minimum_size w) \<and> Dy content \<ge> snd (minimum_size w)
      then (case canvas_New content of
              Inl err \<Rightarrow> Inl err
            | Inr cvs \<Rightarrow>
                (case widget_Draw w cvs of
                   Inl e \<Rightarrow> Inl (WidgetError e)
                 | Inr cvs' \<Rightarrow> canvas_CopyTo cvs' buf))
      else Inr buf)"

text \<open>
  Modelled from the spec: the algorithm of section 4.3, steps 1 to 5, on a node, its area and
  the buffer drawn so far.
\<close>

fun draw_node ::
  "('c::zero, 'e) container \<Rightarrow> rectangle \<Rightarrow> 'c canvas \<Rightarrow> 'e layout_error + 'c canvas" where
  "draw_node (Empty b) ar buf =
     (if Dx ar \<le> 0 \<or> Dy ar \<le> 0 then Inr buf
      else case draw_border b ar buf of
             Inl err \<Rightarrow> Inl err
           | Inr (buf1, content) \<Rightarrow> Inr buf1)"
| "draw_node (Bound b w) ar buf =
     (if Dx ar \<le> 0 \<or> Dy ar \<le> 0 then Inr buf
      else case draw_border b ar buf of
             Inl err \<Rightarrow> Inl err
           | Inr (buf1, content) \<Rightarrow> draw_widget w content buf1)"
| "draw_node (Split b ax p c1 c2) ar buf =
     (if Dx ar \<le> 0 \<or> Dy ar \<le> 0 then Inr buf
      else case draw_border b ar buf of
             Inl err \<Rightarrow> Inl err
           | Inr (buf1, content) \<Rightarrow>
               (case split_rect content ax p of
                  (r1, r2) \<Rightarrow>
                    if degenerate r1 \<or> degenerate r2 then Inr buf1
                    else (case draw_node c1 r1 buf1 of
                            Inl err \<Rightarrow> Inl err
                          | Inr buf2 \<Rightarrow> draw_node c2 r2 buf2)))"

text \<open>
  Modelled from the spec: \<open>Draw\<close>, the entry point, which is not in the sources: a terminal
  size that is not positive in both dimensions is refused; otherwise the root is drawn on
  the rectangle from the origin to the terminal size, on a new buffer.
\<close>

definition container_Draw ::
  "('c::zero, 'e) container \<Rightarrow> int \<times> int \<Rightarrow> 'e layout_error + 'c canvas" where
  "container_Draw cont termSize =
     (if fst termSize \<le> 0 \<or> snd termSize \<le> 0 then Inl InvalidTerminalSize
      else case canvas_New (Rect 0 0 (fst termSize) (snd termSize)) of
             Inl err \<Rightarrow> Inl err
           | Inr buf \<Rightarrow> draw_node cont (Rect 0 0 (fst termSize) (snd termSize)) buf)"

subsection \<open>The cases of TestDraw (container/container_test.go)\<close>

text \<open>
  The trees the test cases build with the options \<open>Border\<close>, \<open>SplitHorizontal\<close>, \<open>SplitVertical\<close>,
  \<open>Top\<close>, \<open>Bottom\<close>, \<open>Left\<close> and \<open>Right\<close> (no ratio is given: the default applies), and the
  terminals they expect: a canvas of the terminal's size on which \<open>mustBox\<close> draws boxes in
  turn.
\<close>

definition SplitHorizontal ::
  "'c line_style option \<Rightarrow> ('c, 'e) container \<Rightarrow> ('c, 'e) container \<Rightarrow> ('c, 'e) container" where
  "SplitHorizontal b c1 c2 = Split b Horizontal default_ratio c1 c2"

definition SplitVertical ::
  "'c line_style option \<Rightarrow> ('c, 'e) container \<Rightarrow> ('c, 'e) container \<Rightarrow> ('c, 'e) container" where
  "SplitVertical b c1 c2 = Split b Vertical default_ratio c1 c2"

definition test_empty_container :: "('c, 'e) container" where
  "test_empty_container = Empty None"

definition test_container_with_border :: "'c line_style \<Rightarrow> ('c, 'e) container" where
  "test_container_with_border ls = Empty (Some ls)"

definition test_hsplit_children_borders :: "'c line_style \<Rightarrow> ('c, 'e) container" where
  "test_hsplit_children_borders ls = SplitHorizontal None (Empty (Some ls)) (Empty (Some ls))"

definition test_vsplit_children_borders :: "'c line_style \<Rightarrow> ('c, 'e) container" where
  "test_vsplit_children_borders ls = SplitVertical None (Empty (Some ls)) (Empty (Some ls))"

definition test_vsplit_parent_and_children_borders :: "'c line_style \<Rightarrow> ('c, 'e) container" where
  "test_vsplit_parent_and_children_borders ls =
     SplitVertical (Some ls) (Empty (Some ls)) (Empty (Some ls))"

definition test_hsplit_parent_and_children_borders :: "'c line_style \<Rightarrow> ('c, 'e) container" where
  "test_hsplit_parent_and_children_borders ls =
     SplitHorizontal (Some ls) (Empty (Some ls)) (Empty (Some ls))"

definition test_multi_level_split :: "'c line_style \<Rightarrow> ('c, 'e) container" where
  "test_multi_level_split ls =
     SplitVertical None
       (SplitHorizontal None
          (Empty (Some ls))
          (SplitHorizontal None (Empty (Some ls)) (Empty (Some ls))))
       (Empty (Some ls))"

definition test_height_too_low :: "'c line_style \<Rightarrow> ('c, 'e) container" where
  "test_height_too_low ls =
     SplitHorizontal None
       (Empty (Some ls))
       (SplitHorizontal None (Empty (Some ls)) (Empty (Some ls)))"

definition want_boxes :: "int \<times> int \<Rightarrow> 'c line_style \<Rightarrow> rectangle list \<Rightarrow> ('c::zero) canvas" where
  "want_boxes termSize ls boxes =
     \<lparr>area = Rect 0 0 (fst termSize) (snd termSize),
      cell_at = fold (box_cells ls) boxes (\<lambda>_. 0)\<rparr>"

subsection \<open>An instance of the widget's collaborators\<close>

text \<open>
  A small instance of the collaborators, on which the functions above can be run: options
  are a flag that \<open>validate\<close> accepts or refuses, every character is supported and kept by
  \<open>Sanitize\<close>, the tracker is the list of the ranges added, a canvas is its area with the
  points drawn, and a segment is one cell wide.
\<close>

definition plain_env ::
  "((int \<times> int \<times> int) list, bool, nat, rectangle \<times> (int \<times> int) list, rune, unit, unit) env" where
  "plain_env =
     \<lparr>newOptions = True,
      validate = (\<lambda>ok. if ok then None else Some (ErrorString ''invalid option'')),
      gapPercent = (\<lambda>_. 0), maximizeSegSize = (\<lambda>_. False),
      hAlign = (\<lambda>_. ()), vAlign = (\<lambda>_. ()),
      NewTracker = [],
      Add = (\<lambda>tr lo hi idx. (None, tr @ [(lo, hi, idx)])),
      ForPosition = (\<lambda>tr pos.
        case filter (\<lambda>(lo, hi, idx). lo \<le> pos \<and> pos < hi) tr of
          [] \<Rightarrow> Inl (ErrorString ''no range for the position'')
        | (lo, hi, idx) # _ \<Rightarrow> Inr \<lparr>Low = lo, High = hi, AttrIdx = idx\<rparr>),
      SupportsChars = (\<lambda>s. (True, [])),
      Sanitize = (\<lambda>s. s),
      MinCols = 1, MinRows = 1,
      sixteenNew = 0,
      SetCharacter = (\<lambda>d c. (None, c)),
      dispDraw = (\<lambda>d cv os. (None, (fst cv, (minX (fst cv), minY (fst cv)) # snd cv))),
      newSegArea = (\<lambda>r n g. Inr \<lparr>segment = Rect 0 0 1 (Dy r), canFit = Dx r, gaps = 0, gapPixels = 0\<rparr>),
      maximizeFit = (\<lambda>r n g. Inr \<lparr>segment = Rect 0 0 1 (Dy r), canFit = Dx r, gaps = 0, gapPixels = 0\<rparr>),
      needArea = (\<lambda>sa. Rect 0 0 (canFit sa) (Dy (segment sa))),
      alignforRectangle = (\<lambda>r need h v. Inr (Rect (minX r) (minY r) (minX r + Dx need) (minY r + Dy need))),
      canvasNew = (\<lambda>r. Inr (r, [])),
      Area = fst,
      CopyTo = (\<lambda>c parent. (None, (fst parent, snd c @ snd parent))),
      range_string = (\<lambda>s. zip (map int [0..<length s]) (map (\<lambda>c. int (of_char c)) s))\<rparr>"

definition plain_wOpts :: "nat writeOptions" where
  "plain_wOpts = \<lparr>errOnUnsupported = False, cellOpts = []\<rparr>"

text \<open>A widget that holds the text \<open>X\<close>, as a call of Write with one chunk leaves it.\<close>

definition holds_X :: "((int \<times> int \<times> int) list, bool, nat) SegmentDisplay" where
  "holds_X = \<lparr>buff = ''X'', givenWOpts = [plain_wOpts], wOptsTracker = [(0, 1, 0)], opts = True\<rparr>"

definition blank_cvs :: "rectangle \<times> (int \<times> int) list" where
  "blank_cvs = (Rect 0 0 4 3, [])"

subsection \<open>What Write leaves behind\<close>

text \<open>
  A chunk is rejected by the loop of \<open>Write\<close> when its text is empty, or has characters the
  display does not support while the chunk asks for an error on those.
\<close>

definition rejected :: "('tr, 'o, 'co, 'cv, 'ds, 'h, 'v) env \<Rightarrow> 'co TextChunk \<Rightarrow> bool" where
  "rejected E tc \<longleftrightarrow>
     text_of tc = [] \<or> (\<not> fst (SupportsChars E (text_of tc)) \<and> errOnUnsupported (wOpts tc))"

definition accepted_text ::
  "('tr, 'o, 'co, 'cv, 'ds, 'h, 'v) env \<Rightarrow> 'co TextChunk option list \<Rightarrow> string" where
  "accepted_text E cs =
     concat (map (\<lambda>c. case c of None \<Rightarrow> [] | Some tc \<Rightarrow> Sanitize E (text_of tc)) cs)"

section \<open>Properties of the SegmentDisplay widget\<close>

subsection \<open>Input events\<close>

text \<open>
  Claim C8. The widget declines keyboard and mouse input: the options it declares ask for
  no keyboard and no mouse events, and for every keyboard event and every mouse event the
  methods \<open>Keyboard\<close> and \<open>Mouse\<close> return an error, which says that the widget does not
  support the events.
\<close>

theorem SegmentDisplay_declines_input:
  "WantKeyboard (Options E sd) = KeyScopeNone \<and>
   WantMouse (Options E sd) = MouseScopeNone \<and>
   Keyboard k =
     Some (ErrorString (''the SegmentDisplay widget doesn'' @ [CHR 0x27] @ ''t support keyboard events'')) \<and>
   Mouse m =
     Some (ErrorString (''the SegmentDisplay widget doesn'' @ [CHR 0x27] @ ''t support mouse events'')) \<and>
   Keyboard k \<noteq> None \<and> Mouse m \<noteq> None"
  by (simp add: Options_def Keyboard_def Mouse_def)

subsection \<open>Drawing without text\<close>

text \<open>
  Claim C10. When no text has been written (the buffer is empty, as it is after \<open>New\<close> and
  after \<open>Reset\<close>), \<open>Draw\<close> returns nil and leaves the canvas as it was, whatever the canvas.
\<close>

theorem Draw_without_text:
  "(buff sd = [] \<longrightarrow> Draw E sd cvs = (Returns None, cvs)) \<and>
   Draw E (Reset E sd) cvs = (Returns None, cvs) \<and>
   (New E os = Inr sd0 \<longrightarrow> Draw E sd0 cvs = (Returns None, cvs))"
  by (auto simp: Draw_def Reset_def reset_def New_def Let_def split: option.splits)

text \<open>
  The statement at the instance of the collaborators, on a widget that was reset and on a
  new one. A widget that holds text does draw on the same canvas.
\<close>

theorem Draw_without_text_witness:
  "buff (Reset plain_env holds_X) = [] \<and>
   Draw plain_env (Reset plain_env holds_X) blank_cvs = (Returns None, blank_cvs) \<and>
   New plain_env [] = Inr \<lparr>buff = [], givenWOpts = [], wOptsTracker = [], opts = True\<rparr> \<and>
   Draw plain_env \<lparr>buff = [], givenWOpts = [], wOptsTracker = [], opts = True\<rparr> blank_cvs
     = (Returns None, blank_cvs) \<and>
   fst (Draw plain_env holds_X blank_cvs) = Returns None \<and>
   snd (Draw plain_env holds_X blank_cvs) \<noteq> blank_cvs"
proof -
  have e: "buff (Reset plain_env holds_X) = []"
    by (simp add: Reset_def reset_def)
  have n: "New plain_env [] = Inr \<lparr>buff = [], givenWOpts = [], wOptsTracker = [], opts = True\<rparr>"
    by (simp add: New_def plain_env_def apply_options_def)
  have d: "Draw plain_env holds_X blank_cvs = (Returns None, (Rect 0 0 4 3, [(0, 0)]))"
    by (simp add: Draw_def preprocess_def plain_env_def holds_X_def blank_cvs_def Rect_def Dx_def Dy_def
          plain_wOpts_def Let_def)
  from Draw_without_text [of "Reset plain_env holds_X" plain_env blank_cvs "[]"
         "\<lparr>buff = [], givenWOpts = [], wOptsTracker = [], opts = True\<rparr>"] e n d
  show ?thesis by (simp add: blank_cvs_def)
qed

subsection \<open>Write and the text written before\<close>

text \<open>
  The loop writes the sanitized text of the chunks in turn and stops at the first chunk it
  cannot take: the buffer then holds what it held before the loop and the text of the chunks
  before that one, none of which was rejected. Only a nil chunk makes it panic.
\<close>

lemma write_chunks_prefix:
  "\<exists>n \<le> length cs.
      buff (snd (write_chunks E i cs sd)) = buff sd @ accepted_text E (take n cs) \<and>
      (\<forall>c \<in> set (take n cs). \<exists>tc. c = Some tc \<and> \<not> rejected E tc) \<and>
      (fst (write_chunks E i cs sd) = Returns None \<longleftrightarrow> n = length cs)"
proof (induction cs arbitrary: i sd)
  case Nil
  show ?case by (simp add: accepted_text_def)
next
  case (Cons c cs)
  show ?case
  proof (cases c)
    case None
    then show ?thesis by (intro exI[of _ 0]) (simp add: accepted_text_def)
  next
    case (Some tc)
    show ?thesis
    proof (cases "rejected E tc")
      case True
      then show ?thesis using Some
        by (intro exI[of _ 0]) (auto simp: accepted_text_def rejected_def)
    next
      case False
      define sd1 where "sd1 = sd\<lparr>givenWOpts := givenWOpts sd @ [wOpts tc]\<rparr>"
      define res where "res = Add E (wOptsTracker sd1) (int (length (buff sd)))
          (int (length (buff sd)) + int (length (Sanitize E (text_of tc)))) (int (length (givenWOpts sd1)) - 1)"
      define sd2 where "sd2 = sd1\<lparr>wOptsTracker := snd res\<rparr>"
      have step: "write_chunks E i (c # cs) sd =
          (case fst res of Some e \<Rightarrow> (Returns (Some e), sd2)
           | None \<Rightarrow> write_chunks E (Suc i) cs (sd2\<lparr>buff := buff sd2 @ Sanitize E (text_of tc)\<rparr>))"
        using False Some
        by (cases "fst res") (auto simp: rejected_def Let_def sd1_def res_def sd2_def case_prod_beta)
      have b2: "buff sd2 = buff sd" by (simp add: sd2_def sd1_def)
      show ?thesis
      proof (cases "fst res")
        case (Some e)
        then show ?thesis using step b2
          by (intro exI[of _ 0]) (simp add: accepted_text_def)
      next
        case None
        let ?sd3 = "sd2\<lparr>buff := buff sd2 @ Sanitize E (text_of tc)\<rparr>"
        from Cons.IH[of "Suc i" ?sd3] obtain n where n: "n \<le> length cs"
          "buff (snd (write_chunks E (Suc i) cs ?sd3)) = buff ?sd3 @ accepted_text E (take n cs)"
          "\<forall>c \<in> set (take n cs). \<exists>tc. c = Some tc \<and> \<not> rejected E tc"
          "fst (write_chunks E (Suc i) cs ?sd3) = Returns None \<longleftrightarrow> n = length cs"
          by blast
        show ?thesis
          using n None step b2 False \<open>c = Some tc\<close>
          by (intro exI[of _ "Suc n"]) (simp add: accepted_text_def)
      qed
    qed
  qed
qed

lemma write_chunks_panics:
  "fst (write_chunks E i cs sd) = Panics \<Longrightarrow> None \<in> set cs"
proof (induction cs arbitrary: i sd)
  case Nil
  then show ?case by simp
next
  case (Cons c cs)
  then show ?case
    by (cases c) (auto simp: Let_def split: if_splits prod.splits option.splits)
qed

text \<open>
  Claim C9, as amended. Called with no chunk, \<open>Write\<close> returns an error and leaves the buffer,
  the write options and the tracker as they were. Called with options that pass validation
  and with chunks, none of them nil, of which one has an empty text (or has unsupported
  characters and asks for an error on those), \<open>Write\<close> returns an error after it has reset the
  content: the buffer no longer holds the earlier text; it holds the sanitized text of chunks
  that come before the first rejected chunk, and nothing when that chunk is the first.
\<close>

theorem Write_clears_before_failing:
  "(\<exists>e. fst (Write E [] os sd) = Returns (Some e)) \<and>
   buff (snd (Write E [] os sd)) = buff sd \<and>
   givenWOpts (snd (Write E [] os sd)) = givenWOpts sd \<and>
   wOptsTracker (snd (Write E [] os sd)) = wOptsTracker sd \<and>
   (validate E (apply_options os (opts sd)) = None \<and> None \<notin> set chunks \<and>
    Some tc \<in> set chunks \<and> rejected E tc \<longrightarrow>
      (\<exists>e n. fst (Write E chunks os sd) = Returns (Some e) \<and> n < length chunks \<and>
         buff (snd (Write E chunks os sd)) = accepted_text E (take n chunks) \<and>
         (\<forall>c \<in> set (take n chunks). \<exists>tc'. c = Some tc' \<and> \<not> rejected E tc')))"
proof -
  have zero: "(\<exists>e. fst (Write E [] os sd) = Returns (Some e)) \<and>
     buff (snd (Write E [] os sd)) = buff sd \<and>
     givenWOpts (snd (Write E [] os sd)) = givenWOpts sd \<and>
     wOptsTracker (snd (Write E [] os sd)) = wOptsTracker sd"
    by (simp add: Write_def Let_def split: option.splits)
  have some: "\<exists>e n. fst (Write E chunks os sd) = Returns (Some e) \<and> n < length chunks \<and>
         buff (snd (Write E chunks os sd)) = accepted_text E (take n chunks) \<and>
         (\<forall>c \<in> set (take n chunks). \<exists>tc'. c = Some tc' \<and> \<not> rejected E tc')"
    if v: "validate E (apply_options os (opts sd)) = None" and nn: "None \<notin> set chunks"
      and mem: "Some tc \<in> set chunks" and rej: "rejected E tc"
  proof -
    let ?sd0 = "reset E (sd\<lparr>opts := apply_options os (opts sd)\<rparr>)"
    from mem have ne: "chunks \<noteq> []" by auto
    have W: "Write E chunks os sd = write_chunks E 0 chunks ?sd0"
      using v ne by (simp add: Write_def Let_def)
    have b0: "buff ?sd0 = []" by (simp add: reset_def)
    from write_chunks_prefix[of chunks E 0 ?sd0] obtain n where n: "n \<le> length chunks"
      "buff (snd (write_chunks E 0 chunks ?sd0)) = buff ?sd0 @ accepted_text E (take n chunks)"
      "\<forall>c \<in> set (take n chunks). \<exists>tc'. c = Some tc' \<and> \<not> rejected E tc'"
      "fst (write_chunks E 0 chunks ?sd0) = Returns None \<longleftrightarrow> n = length chunks"
      by blast
    have "n \<noteq> length chunks"
    proof
      assume "n = length chunks"
      with n(3) mem have "\<exists>tc'. Some tc = Some tc' \<and> \<not> rejected E tc'" by auto
      with rej show False by simp
    qed
    with n(1) have lt: "n < length chunks" by simp
    from \<open>n \<noteq> length chunks\<close> n(4) have notnil: "fst (write_chunks E 0 chunks ?sd0) \<noteq> Returns None"
      by simp
    from nn write_chunks_panics[of E 0 chunks ?sd0]
    have notpanic: "fst (write_chunks E 0 chunks ?sd0) \<noteq> Panics" by blast
    from notnil notpanic obtain e where "fst (write_chunks E 0 chunks ?sd0) = Returns (Some e)"
      by (cases "fst (write_chunks E 0 chunks ?sd0)") auto
    with lt n(2,3) b0 W show ?thesis by auto
  qed
  from zero some show ?thesis by blast
qed

text \<open>
  The statement at the instance of the collaborators: the widget holds \<open>X\<close> and is given the
  chunk \<open>A\<close> and an empty chunk.
\<close>

theorem Write_clears_before_failing_witness:
  "validate plain_env (apply_options [] (opts holds_X)) = None \<and>
   None \<notin> set [Some (NewChunk ''A'' plain_wOpts), Some (NewChunk [] plain_wOpts)] \<and>
   rejected plain_env (NewChunk [] plain_wOpts) \<and>
   (\<exists>e n. fst (Write plain_env [Some (NewChunk ''A'' plain_wOpts), Some (NewChunk [] plain_wOpts)] [] holds_X)
              = Returns (Some e) \<and> n < 2 \<and>
      buff (snd (Write plain_env [Some (NewChunk ''A'' plain_wOpts), Some (NewChunk [] plain_wOpts)] [] holds_X))
        = accepted_text plain_env
            (take n [Some (NewChunk ''A'' plain_wOpts), Some (NewChunk [] plain_wOpts)]))"
proof -
  have v: "validate plain_env (apply_options [] (opts holds_X)) = None"
    by (simp add: plain_env_def apply_options_def holds_X_def)
  have r: "rejected plain_env (NewChunk [] plain_wOpts)"
    by (simp add: rejected_def NewChunk_def)
  have nn: "None \<notin> set [Some (NewChunk ''A'' plain_wOpts), Some (NewChunk [] plain_wOpts)]"
    by simp
  have m: "Some (NewChunk [] plain_wOpts) \<in> set [Some (NewChunk ''A'' plain_wOpts), Some (NewChunk [] plain_wOpts)]"
    by simp
  from Write_clears_before_failing
         [of plain_env "[]" holds_X
             "[Some (NewChunk ''A'' plain_wOpts), Some (NewChunk [] plain_wOpts)]"
             "NewChunk [] plain_wOpts"] v r nn m
  obtain e n where
    "fst (Write plain_env [Some (NewChunk ''A'' plain_wOpts), Some (NewChunk [] plain_wOpts)] [] holds_X)
       = Returns (Some e)"
    "n < length [Some (NewChunk ''A'' plain_wOpts), Some (NewChunk [] plain_wOpts)]"
    "buff (snd (Write plain_env [Some (NewChunk ''A'' plain_wOpts), Some (NewChunk [] plain_wOpts)] [] holds_X))
       = accepted_text plain_env
           (take n [Some (NewChunk ''A'' plain_wOpts), Some (NewChunk [] plain_wOpts)])"
    by blast
  then have "\<exists>e n. fst (Write plain_env [Some (NewChunk ''A'' plain_wOpts), Some (NewChunk [] plain_wOpts)] [] holds_X)
              = Returns (Some e) \<and> n < 2 \<and>
      buff (snd (Write plain_env [Some (NewChunk ''A'' plain_wOpts), Some (NewChunk [] plain_wOpts)] [] holds_X))
        = accepted_text plain_env
            (take n [Some (NewChunk ''A'' plain_wOpts), Some (NewChunk [] plain_wOpts)])"
    by (intro exI[of _ e] exI[of _ n]) simp
  with v r nn show ?thesis by blast
qed

text \<open>
  Claim C9 as it was stated says that a call that fails on a chunk leaves the widget empty.
  It does not when an earlier chunk was taken: after the chunk \<open>A\<close> and an empty chunk the
  widget holds \<open>A\<close>. And a call whose options fail validation returns before the reset: the
  widget still holds \<open>X\<close>, although the only chunk is empty.
\<close>

theorem Write_leaves_earlier_chunks:
  "fst (Write plain_env [Some (NewChunk ''A'' plain_wOpts), Some (NewChunk [] plain_wOpts)] [] holds_X)
     = Returns (Some (EmptyChunk 1)) \<and>
   buff (snd (Write plain_env [Some (NewChunk ''A'' plain_wOpts), Some (NewChunk [] plain_wOpts)] [] holds_X))
     = ''A'' \<and>
   fst (Write plain_env [Some (NewChunk [] plain_wOpts)] [(\<lambda>_. False)] holds_X)
     = Returns (Some (ErrorString ''invalid option'')) \<and>
   buff (snd (Write plain_env [Some (NewChunk [] plain_wOpts)] [(\<lambda>_. False)] holds_X)) = ''X''"
  by (simp add: Write_def plain_env_def apply_options_def holds_X_def reset_def NewChunk_def
        plain_wOpts_def Let_def)

section \<open>Properties of the layout engine as the specification describes it\<close>

subsection \<open>The split policy\<close>

lemma floor_half: "\<lfloor>real_of_int n * (1 / 2)\<rfloor> = n div 2"
  using floor_divide_of_int_eq[of n 2, where ?'a = real] by simp

lemma floor_share_bounds:
  assumes "0 \<le> p" "p \<le> 1" "0 \<le> n"
  shows "0 \<le> \<lfloor>real_of_int n * p\<rfloor> \<and> \<lfloor>real_of_int n * p\<rfloor> \<le> n"
proof -
  have "0 \<le> real_of_int n * p" using assms by simp
  moreover have "real_of_int n * p \<le> real_of_int n * 1"
    using assms by (intro mult_left_mono) simp_all
  ultimately show ?thesis by (simp add: floor_le_iff)
qed

text \<open>
  Claim C3. For every rectangle and every ratio \<open>p\<close>, a horizontal split gives the first
  child the height \<open>floor (h \<times> p)\<close> and the second child the rest of the height \<open>h\<close>: the
  heights add up to \<open>h\<close>, the first child starts where the rectangle starts, the second
  starts where the first ends and ends where the rectangle ends, and both keep the
  rectangle's width. A vertical split does the same on the width. At the default ratio the
  first child gets \<open>h div 2\<close>, the floor share of an odd dimension. For a ratio between 0
  and 1 the cells of the two children are those of the rectangle, each once.
\<close>

theorem split_rect_partitions:
  "(case split_rect r Horizontal p of (a, b) \<Rightarrow>
      Dy a = \<lfloor>real_of_int (Dy r) * p\<rfloor> \<and> Dy b = Dy r - Dy a \<and> Dy a + Dy b = Dy r \<and>
      minY a = minY r \<and> maxY a = minY b \<and> maxY b = maxY r \<and>
      minX a = minX r \<and> maxX a = maxX r \<and> minX b = minX r \<and> maxX b = maxX r) \<and>
   (case split_rect r Vertical p of (a, b) \<Rightarrow>
      Dx a = \<lfloor>real_of_int (Dx r) * p\<rfloor> \<and> Dx b = Dx r - Dx a \<and> Dx a + Dx b = Dx r \<and>
      minX a = minX r \<and> maxX a = minX b \<and> maxX b = maxX r \<and>
      minY a = minY r \<and> maxY a = maxY r \<and> minY b = minY r \<and> maxY b = maxY r) \<and>
   (case split_rect r Horizontal default_ratio of (a, b) \<Rightarrow> Dy a = Dy r div 2) \<and>
   (case split_rect r Vertical default_ratio of (a, b) \<Rightarrow> Dx a = Dx r div 2) \<and>
   (0 \<le> p \<and> p \<le> 1 \<and> 0 \<le> Dx r \<and> 0 \<le> Dy r \<longrightarrow>
      (case split_rect r ax p of (a, b) \<Rightarrow>
         cells_of a \<union> cells_of b = cells_of r \<and> cells_of a \<inter> cells_of b = {}))"
proof -
  have eqH: "(case split_rect r Horizontal p of (a, b) \<Rightarrow>
      Dy a = \<lfloor>real_of_int (Dy r) * p\<rfloor> \<and> Dy b = Dy r - Dy a \<and> Dy a + Dy b = Dy r \<and>
      minY a = minY r \<and> maxY a = minY b \<and> maxY b = maxY r \<and>
      minX a = minX r \<and> maxX a = maxX r \<and> minX b = minX r \<and> maxX b = maxX r)"
    by (simp add: split_rect_def Let_def Dx_def Dy_def)
  have eqV: "(case split_rect r Vertical p of (a, b) \<Rightarrow>
      Dx a = \<lfloor>real_of_int (Dx r) * p\<rfloor> \<and> Dx b = Dx r - Dx a \<and> Dx a + Dx b = Dx r \<and>
      minX a = minX r \<and> maxX a = minX b \<and> maxX b = maxX r \<and>
      minY a = minY r \<and> maxY a = maxY r \<and> minY b = minY r \<and> maxY b = maxY r)"
    by (simp add: split_rect_def Let_def Dx_def Dy_def)
  have dH: "(case split_rect r Horizontal default_ratio of (a, b) \<Rightarrow> Dy a = Dy r div 2)"
    using floor_half[of "Dy r"]
    by (simp add: split_rect_def Let_def Dy_def default_ratio_def)
  have dV: "(case split_rect r Vertical default_ratio of (a, b) \<Rightarrow> Dx a = Dx r div 2)"
    using floor_half[of "Dx r"]
    by (simp add: split_rect_def Let_def Dx_def default_ratio_def)
  have cells: "(case split_rect r ax p of (a, b) \<Rightarrow>
         cells_of a \<union> cells_of b = cells_of r \<and> cells_of a \<inter> cells_of b = {})"
    if p: "0 \<le> p" "p \<le> 1" and w: "0 \<le> Dx r" and h: "0 \<le> Dy r"
  proof (cases ax)
    case Horizontal
    define a where "a = \<lfloor>real_of_int (Dy r) * p\<rfloor>"
    from floor_share_bounds[OF p h] have b: "0 \<le> a" "a \<le> maxY r - minY r"
      unfolding a_def by (simp_all add: Dy_def)
    have sr: "split_rect r ax p = (r\<lparr>maxY := minY r + a\<rparr>, r\<lparr>minY := minY r + a\<rparr>)"
      unfolding a_def using Horizontal by (simp add: split_rect_def Let_def)
    show ?thesis unfolding sr using b
      by (auto simp: cells_of_def)
  next
    case Vertical
    define a where "a = \<lfloor>real_of_int (Dx r) * p\<rfloor>"
    from floor_share_bounds[OF p w] have b: "0 \<le> a" "a \<le> maxX r - minX r"
      unfolding a_def by (simp_all add: Dx_def)
    have sr: "split_rect r ax p = (r\<lparr>maxX := minX r + a\<rparr>, r\<lparr>minX := minX r + a\<rparr>)"
      unfolding a_def using Vertical by (simp add: split_rect_def Let_def)
    show ?thesis unfolding sr using b
      by (auto simp: cells_of_def)
  qed
  have cells': "0 \<le> p \<and> p \<le> 1 \<and> 0 \<le> Dx r \<and> 0 \<le> Dy r \<longrightarrow>
      (case split_rect r ax p of (a, b) \<Rightarrow>
         cells_of a \<union> cells_of b = cells_of r \<and> cells_of a \<inter> cells_of b = {})"
    using cells by (intro impI) (elim conjE)
  show ?thesis
    by (rule conjI[OF eqH conjI[OF eqV conjI[OF dH conjI[OF dV cells']]]])
qed

text \<open>
  The statement at the left column of the test case "multi level split", 11 rows high, which
  the default ratio splits into 5 and 6 rows.
\<close>

theorem split_rect_partitions_witness:
  "(0::real) \<le> default_ratio \<and> default_ratio \<le> 1 \<and> 0 \<le> Dx (Rect 0 0 10 11) \<and> 0 \<le> Dy (Rect 0 0 10 11) \<and>
   split_rect (Rect 0 0 10 11) Horizontal default_ratio = (Rect 0 0 10 5, Rect 0 5 10 11) \<and>
   Dy (Rect 0 0 10 5) = 11 div 2 \<and> Dy (Rect 0 0 10 5) + Dy (Rect 0 5 10 11) = Dy (Rect 0 0 10 11) \<and>
   cells_of (Rect 0 0 10 5) \<union> cells_of (Rect 0 5 10 11) = cells_of (Rect 0 0 10 11) \<and>
   cells_of (Rect 0 0 10 5) \<inter> cells_of (Rect 0 5 10 11) = {}"
proof -
  have s: "split_rect (Rect 0 0 10 11) Horizontal default_ratio = (Rect 0 0 10 5, Rect 0 5 10 11)"
    by (simp add: split_rect_def Rect_def Dy_def default_ratio_def)
  have h: "(0::real) \<le> default_ratio \<and> default_ratio \<le> 1 \<and> 0 \<le> Dx (Rect 0 0 10 11) \<and> 0 \<le> Dy (Rect 0 0 10 11)"
    by (simp add: default_ratio_def Rect_def Dx_def Dy_def)
  from split_rect_partitions[of "Rect 0 0 10 11" default_ratio Horizontal] h s
  show ?thesis by (simp add: Rect_def Dy_def)
qed

subsection \<open>The algorithm on the cases of TestDraw\<close>

lemmas engine_defs =
  container_Draw_def canvas_New_def Rect_def Dx_def Dy_def draw_border_def draw_Box_def
  inside_def inset_def split_rect_def default_ratio_def degenerate_def want_boxes_def
  SplitHorizontal_def SplitVertical_def

text \<open>
  On the cases with a border alone, with a horizontal or a vertical split and with the
  multi-level split, the algorithm draws the terminal that the test expects.
\<close>

lemma TestDraw_container_with_border:
  "container_Draw (test_container_with_border ls) (10, 10) =
     Inr (want_boxes (10, 10) ls [Rect 0 0 10 10])"
  by (simp add: test_container_with_border_def engine_defs)

lemma TestDraw_hsplit_children_borders:
  "container_Draw (test_hsplit_children_borders ls) (10, 10) =
     Inr (want_boxes (10, 10) ls [Rect 0 0 10 5, Rect 0 5 10 10])"
  by (simp add: test_hsplit_children_borders_def engine_defs)

lemma TestDraw_vsplit_children_borders:
  "container_Draw (test_vsplit_children_borders ls) (10, 10) =
     Inr (want_boxes (10, 10) ls [Rect 0 0 5 10, Rect 5 0 10 10])"
  by (simp add: test_vsplit_children_borders_def engine_defs)

lemma TestDraw_vsplit_parent_and_children_borders:
  "container_Draw (test_vsplit_parent_and_children_borders ls) (10, 10) =
     Inr (want_boxes (10, 10) ls [Rect 0 0 10 10, Rect 1 1 5 9, Rect 5 1 9 9])"
  by (simp add: test_vsplit_parent_and_children_borders_def engine_defs)

lemma TestDraw_multi_level_split:
  "container_Draw (test_multi_level_split ls) (10, 11) =
     Inr (want_boxes (10, 11) ls [Rect 0 0 5 5, Rect 0 5 5 8, Rect 0 8 5 11, Rect 5 0 10 11])"
  by (simp add: test_multi_level_split_def engine_defs)

text \<open>
  On the case "container height too low" it does not: the bottom container is 4 by 4, its
  halves are 4 by 2, which is neither degenerate nor too small for a border by section 4.3,
  so the algorithm draws the borders of all three leaves, where the test expects the box of
  the top leaf alone.
\<close>

lemma height_too_low_three_boxes:
  "container_Draw (test_height_too_low ls) (4, 7) =
     Inr (want_boxes (4, 7) ls [Rect 0 0 4 3, Rect 0 3 4 5, Rect 0 5 4 7])"
  by (simp add: test_height_too_low_def engine_defs)

lemma height_too_low_differs:
  assumes "ls TopLeft \<noteq> 0"
  shows "container_Draw (test_height_too_low ls) (4, 7) \<noteq> Inr (want_boxes (4, 7) ls [Rect 0 0 4 3])"
proof
  assume "container_Draw (test_height_too_low ls) (4, 7) = Inr (want_boxes (4, 7) ls [Rect 0 0 4 3])"
  then have "want_boxes (4, 7) ls [Rect 0 0 4 3, Rect 0 3 4 5, Rect 0 5 4 7]
             = want_boxes (4, 7) ls [Rect 0 0 4 3]"
    by (simp add: height_too_low_three_boxes)
  then have "cell_at (want_boxes (4, 7) ls [Rect 0 0 4 3, Rect 0 3 4 5, Rect 0 5 4 7]) (0, 3)
             = cell_at (want_boxes (4, 7) ls [Rect 0 0 4 3]) (0, 3)"
    by simp
  then show False using assms
    by (simp add: want_boxes_def box_cells_def outline_part_def cells_of_def Rect_def Let_def)
qed

text \<open>
  Claim C4. On a terminal of 10 by 10 a root with a border, split horizontally into two
  children with borders, draws three boxes and nothing else: the outer box on (0,0)-(10,10)
  and the children's boxes on (1,1)-(9,5) and (1,5)-(9,9). The children share the parent's
  area inset by one cell on every side, (1,1)-(9,9).
\<close>

theorem hsplit_parent_and_children_borders_boxes:
  "container_Draw (test_hsplit_parent_and_children_borders ls) (10, 10) =
     Inr (want_boxes (10, 10) ls [Rect 0 0 10 10, Rect 1 1 9 5, Rect 1 5 9 9]) \<and>
   inset (Rect 0 0 10 10) = Rect 1 1 9 9 \<and>
   split_rect (Rect 1 1 9 9) Horizontal default_ratio = (Rect 1 1 9 5, Rect 1 5 9 9)"
  by (simp add: test_hsplit_parent_and_children_borders_def engine_defs)

subsection \<open>A container with nothing configured\<close>

text \<open>
  Claim C6. For every terminal size of at least 1 by 1, drawing a single node that has no
  border, no split and no widget returns no error and leaves every cell of the buffer at
  its zero value.
\<close>

theorem empty_container_draws_nothing:
  "1 \<le> w \<and> 1 \<le> h \<longrightarrow>
     container_Draw (Empty None) (w, h) = Inr \<lparr>area = Rect 0 0 w h, cell_at = (\<lambda>_. 0)\<rparr>"
  by (simp add: engine_defs)

text \<open>The statement at the test case "empty container", on a terminal of 10 by 10.\<close>

theorem empty_container_draws_nothing_witness:
  "(1::int) \<le> 10 \<and>
   container_Draw (test_empty_container :: (int, unit) container) (10, 10) =
     Inr (want_boxes (10, 10) (\<lambda>_. 1) [])"
  using empty_container_draws_nothing[of 10 10]
  by (simp add: test_empty_container_def want_boxes_def)

subsection \<open>A widget on an area that its border fills\<close>

text \<open>
  Sections 4.1 and 4.3 leave one case open. A bordered area of 2 by 2 has a content of 0 by
  0, which meets the minimum size of a widget that declares 0 by 0; step 3 then allocates a
  canvas over the content, which the canvas refuses. The model returns the canvas's error;
  the specification does not say what \<open>Draw\<close> does with it.
\<close>

lemma bordered_widget_on_2_by_2:
  "container_Draw
     (Bound (Some ls) \<lparr>minimum_size = (0, 0), widget_Draw = (\<lambda>c. Inr c)\<rparr> :: (int, unit) container)
     (2, 2) = Inl InvalidArea"
  by (simp add: engine_defs draw_widget_def)

end
